theory Spec2Isabelle
  imports
    Complex_Main
    "HOL-Library.Sublist"
    "HOL-Library.Stream"
    "HOL-Library.AList"
    "HOL-Library.Log_Nat"
begin

section \<open>Intent classification with keyword fallback\<close>

text \<open>
  A shallow embedding of \<^verbatim>\<open>supervisor/intent_identifier.py\<close>: the class
  \<^verbatim>\<open>IntentIdentifier\<close> with its methods \<^verbatim>\<open>identify_intent\<close> and
  \<^verbatim>\<open>_fallback_intent\<close>, and the registry \<^verbatim>\<open>AGENT_DESCRIPTIONS\<close>.

  Two things come from outside the module and are inputs of the model:
  \<^item> the language model behind \<^verbatim>\<open>self.model.generate_content\<close>, whose answer to each
    call is arbitrary: a text, or an exception of some class;
  \<^item> \<^verbatim>\<open>json.loads\<close> of the Python standard library, taken as a function from texts to
    parsed values that may fail.
\<close>

subsection \<open>Python strings\<close>

text \<open>
  A \<^verbatim>\<open>str\<close> is a \<^typ>\<open>string\<close>; a \<^typ>\<open>char\<close> stands for the code point of the same
  number, so the model covers the texts whose code points are below 256. On these,
  \<^verbatim>\<open>str.isspace\<close> holds of exactly twelve characters and \<^verbatim>\<open>str.lower\<close> moves the
  letters A..Z and the capital letters 192..222 (except the sign 215) up by 32.
\<close>

definition isspace :: "char \<Rightarrow> bool" where
  "isspace c \<longleftrightarrow> (of_char c :: nat) \<in> {9, 10, 11, 12, 13, 28, 29, 30, 31, 32, 133, 160}"

definition lower_char :: "char \<Rightarrow> char" where
  "lower_char c =
     (let n = (of_char c :: nat)
      in if (65 \<le> n \<and> n \<le> 90) \<or> (192 \<le> n \<and> n \<le> 222 \<and> n \<noteq> 215)
         then char_of (n + 32) else c)"

definition lower :: "string \<Rightarrow> string" where
  "lower s = map lower_char s"

text \<open>\<^verbatim>\<open>s.strip()\<close> removes the whitespace at both ends.\<close>

definition strip :: "string \<Rightarrow> string" where
  "strip s = rev (dropWhile isspace (rev (dropWhile isspace s)))"

definition startswith :: "string \<Rightarrow> string \<Rightarrow> bool" where
  "startswith s p \<longleftrightarrow> prefix p s"

definition endswith :: "string \<Rightarrow> string \<Rightarrow> bool" where
  "endswith s p \<longleftrightarrow> suffix p s"

text \<open>
  The test \<^verbatim>\<open>keyword in query_lower\<close> on two strings is the contiguous substring test,
  \<^const>\<open>sublist\<close>.
\<close>

subsection \<open>Python floats\<close>

text \<open>
  A finite \<^verbatim>\<open>float\<close> is an IEEE 754 double and is represented by the rational number it
  denotes. \<open>fl53\<close> rounds a rational to the nearest number with a 53-bit significand, ties
  to the even significand: that is the value of a float literal and of the result of one
  arithmetic operation, as long as the exponent stays in the range of the normal doubles.
  The numbers rounded below are the literals 0.2, 0.3, 0.5 and 0.7, a score (at most 8,
  the length of the longest list of keywords) and a score times 0.2.
\<close>

definition round_half_even :: "rat \<Rightarrow> int" where
  "round_half_even x =
     (let n = \<lfloor>x\<rfloor>; r = x - of_int n
      in if r < 1 / 2 then n else if 1 / 2 < r then n + 1 else if even n then n else n + 1)"

text \<open>The exponent \<open>e\<close> of a rational \<open>x \<noteq> 0\<close>: \<open>2 ^ e \<le> \<bar>x\<bar> < 2 ^ (e + 1)\<close>.\<close>

definition binary_exponent :: "rat \<Rightarrow> int" where
  "binary_exponent x =
     (let (p, q) = quotient_of \<bar>x\<bar>;
          d = bitlen p - bitlen q
      in if 2 powi d \<le> \<bar>x\<bar> then d else d - 1)"

definition fl53 :: "rat \<Rightarrow> rat" where
  "fl53 x =
     (if x = 0 then 0
      else let s = 2 powi (52 - binary_exponent x)
           in of_int (round_half_even (x * s)) / s)"

text \<open>
  \<^verbatim>\<open>n * x\<close> for an \<^verbatim>\<open>int\<close> \<open>n\<close> and a \<^verbatim>\<open>float\<close> \<open>x\<close>: the integer is converted to a
  float, then the product is rounded.
\<close>

definition int_times_float :: "int \<Rightarrow> rat \<Rightarrow> rat" where
  "int_times_float n x = fl53 (fl53 (of_int n) * x)"

datatype pyfloat = Finite rat | PosInf | NegInf | NaN

subsection \<open>Parsed JSON values and dictionaries\<close>

text \<open>
  The values \<^verbatim>\<open>json.loads\<close> returns: \<^verbatim>\<open>None\<close>, a \<^verbatim>\<open>bool\<close>, an \<^verbatim>\<open>int\<close>, a
  \<^verbatim>\<open>float\<close>, a \<^verbatim>\<open>str\<close>, a \<^verbatim>\<open>list\<close> or a \<^verbatim>\<open>dict\<close> with string keys. A \<^verbatim>\<open>dict\<close>
  keeps its keys in insertion order, so it is an association list; the dictionary literals
  of \<^verbatim>\<open>_fallback_intent\<close> are values of the same type.
\<close>

datatype json =
    JNull
  | JBool bool
  | JInt int
  | JFloat pyfloat
  | JStr string
  | JArr "json list"
  | JObj "(string \<times> json) list"

type_synonym dict = "(string \<times> json) list"

text \<open>\<^verbatim>\<open>d.get(k)\<close> is \<^verbatim>\<open>None\<close> for a missing key; \<^verbatim>\<open>d[k] = v\<close> replaces the value of
  an existing key in place and appends a new key.\<close>

definition dict_get :: "dict \<Rightarrow> string \<Rightarrow> json" where
  "dict_get d k = (case map_of d k of None \<Rightarrow> JNull | Some v \<Rightarrow> v)"

definition dict_set :: "dict \<Rightarrow> string \<Rightarrow> json \<Rightarrow> dict" where
  "dict_set d k v = AList.update k v d"

subsection \<open>Exceptions\<close>

text \<open>
  The exception classes that matter to the two \<^verbatim>\<open>except\<close> clauses of
  \<^verbatim>\<open>identify_intent\<close>. \<open>OtherException name\<close> is an instance of any other class that derives
  from \<^verbatim>\<open>Exception\<close>; \<open>NonException name\<close> is an instance of a class that derives from
  \<^verbatim>\<open>BaseException\<close> only, such as \<^verbatim>\<open>KeyboardInterrupt\<close> or \<^verbatim>\<open>SystemExit\<close>.
\<close>

datatype py_exception =
    JSONDecodeError
  | AttributeError
  | TypeError
  | UnboundLocalError
  | OtherException string
  | NonException string

fun is_Exception :: "py_exception \<Rightarrow> bool" where
  "is_Exception (NonException name) = False"
| "is_Exception e = True"

subsection \<open>The agent registry\<close>

text \<open>
  \<^verbatim>\<open>AGENT_DESCRIPTIONS\<close> maps each agent id to a dictionary with the keys \<^verbatim>\<open>name\<close>,
  \<^verbatim>\<open>description\<close>, \<^verbatim>\<open>keywords\<close> and \<^verbatim>\<open>example_intents\<close>. Only \<^verbatim>\<open>keywords\<close> is read by
  the classification; the other three only feed the text of the prompt.
\<close>

record agent_info =
  "keywords" :: "string list"

definition AGENT_DESCRIPTIONS :: "(string \<times> agent_info) list" where
  "AGENT_DESCRIPTIONS =
   [(''adaptive_quiz_master_agent'',
       \<lparr>keywords = [''quiz'', ''test'', ''questions'', ''assessment'', ''adaptive'', ''practice'',
                    ''mcq'', ''true/false'']\<rparr>),
    (''assignment_coach_agent'',
       \<lparr>keywords = [''assignment'', ''homework'', ''task'', ''breakdown'', ''guidance'',
                    ''help with assignment'', ''project help'']\<rparr>),
    (''plagiarism_prevention_agent'',
       \<lparr>keywords = [''plagiarism'', ''check originality'', ''rephrase'', ''paraphrase'',
                    ''originality'', ''copied content'', ''authenticity'']\<rparr>),
    (''research_scout_agent'',
       \<lparr>keywords = [''research'', ''papers'', ''articles'', ''case studies'', ''literature review'',
                    ''find papers'', ''academic sources'']\<rparr>),
    (''concept_reinforcement_agent'',
       \<lparr>keywords = [''practice'', ''weak topics'', ''reinforcement'', ''struggling with'',
                    ''need more practice'', ''flashcards'', ''review'']\<rparr>),
    (''citation_manager_agent'',
       \<lparr>keywords = [''citation'', ''reference'', ''bibliography'', ''APA'', ''MLA'', ''Chicago'',
                    ''cite'', ''format reference'']\<rparr>),
    (''peer_collaboration_agent'',
       \<lparr>keywords = [''team'', ''collaboration'', ''group work'', ''teamwork'',
                    ''discussion analysis'', ''team feedback'', ''coordination'']\<rparr>),
    (''adaptive_flashcard_agent'',
       \<lparr>keywords = [''flashcard'', ''memorize'', ''recall'', ''study cards'', ''memory'',
                    ''retention'']\<rparr>),
    (''presentation_feedback_agent'',
       \<lparr>keywords = [''presentation'', ''feedback'', ''speech'', ''delivery'', ''public speaking'',
                    ''transcript analysis'', ''presenting'']\<rparr>),
    (''lecture_insight_agent'',
       \<lparr>keywords = [''lecture'', ''audio'', ''recording'', ''notes'', ''summarize lecture'',
                    ''audio analysis'', ''class recording'']\<rparr>),
    (''question_anticipator_agent'',
       \<lparr>keywords = [''exam questions'', ''predict questions'', ''syllabus analysis'',
                    ''past papers'', ''exam preparation'', ''likely questions'']\<rparr>),
    (''daily_revision_proctor_agent'',
       \<lparr>keywords = [''revision'', ''daily study'', ''reminders'', ''study routine'',
                    ''progress tracking'', ''study habits'']\<rparr>),
    (''study_scheduler_agent'',
       \<lparr>keywords = [''schedule'', ''timetable'', ''study plan'', ''time management'',
                    ''organize study'', ''calendar'']\<rparr>),
    (''exam_readiness_agent'',
       \<lparr>keywords = [''exam'', ''assessment'', ''readiness'', ''mock test'', ''exam prep'',
                    ''practice exam'']\<rparr>),
    (''gemini-wrapper'',
       \<lparr>keywords = [''general'', ''chat'', ''explain'', ''tell me about'', ''what is'',
                    ''how does'', ''conversation'']\<rparr>)]"

text \<open>
  \<^verbatim>\<open>agent_id not in AGENT_DESCRIPTIONS\<close> hashes the value first: a \<^verbatim>\<open>list\<close> or a
  \<^verbatim>\<open>dict\<close> is unhashable and the test raises \<^verbatim>\<open>TypeError\<close>. The keys are strings, so a
  hashable value that is not a string is never found.
\<close>

fun hashable :: "json \<Rightarrow> bool" where
  "hashable (JArr xs) = False"
| "hashable (JObj d) = False"
| "hashable v = True"

fun is_registry_key :: "json \<Rightarrow> bool" where
  "is_registry_key (JStr s) = (s \<in> set (map fst AGENT_DESCRIPTIONS))"
| "is_registry_key v = False"

definition in_AGENT_DESCRIPTIONS :: "json \<Rightarrow> py_exception + bool" where
  "in_AGENT_DESCRIPTIONS v = (if hashable v then Inr (is_registry_key v) else Inl TypeError)"

subsection \<open>The environment: the language model and the log\<close>

text \<open>
  One call \<^verbatim>\<open>response = self.model.generate_content(prompt)\<close> followed by the read of
  \<^verbatim>\<open>response.text\<close> either yields a text or raises. The language model answers as it
  likes, so the state holds the outcomes of the calls still to come: a call takes the head
  of the stream. The prompt built by \<^verbatim>\<open>_build_prompt\<close> from the query and the
  conversation history reaches nothing but the language model, whose outcome is arbitrary
  here; it is not modelled.
\<close>

datatype llm_outcome = Returns string | Raises py_exception

text \<open>
  Each call of \<^verbatim>\<open>_logger\<close> appends one record. A record names the statement that wrote
  it and carries the values its message interpolates (the text of an exception apart).
\<close>

datatype log_record =
    Info_identifying string
  | Warning_unknown_agent_id json
  | Info_identified json json
  | Error_parse_failed
  | Error_raw_response string
  | Error_identification
  | Warning_fallback

record world =
  llm :: "llm_outcome stream"
  log :: "log_record list"

definition generate_content :: "world \<Rightarrow> llm_outcome \<times> world" where
  "generate_content w = (shd (llm w), w\<lparr>llm := stl (llm w)\<rparr>)"

definition emit :: "log_record \<Rightarrow> world \<Rightarrow> world" where
  "emit r w = w\<lparr>log := log w @ [r]\<rparr>"

subsection \<open>The keyword fallback\<close>

text \<open>
  The loop of \<^verbatim>\<open>_fallback_intent\<close> over \<^verbatim>\<open>AGENT_DESCRIPTIONS.items()\<close>, with the
  variables \<^verbatim>\<open>best_match\<close> and \<^verbatim>\<open>best_score\<close> as its state.
\<close>

fun scan_agents ::
  "(string \<times> agent_info) list \<Rightarrow> string \<Rightarrow> string option \<times> nat \<Rightarrow> string option \<times> nat"
where
  "scan_agents [] query_lower (best_match, best_score) = (best_match, best_score)"
| "scan_agents ((agent_id, info) # items) query_lower (best_match, best_score) =
     (let score = length (filter (\<lambda>keyword. sublist keyword query_lower) (keywords info))
      in if score > best_score
         then scan_agents items query_lower (Some agent_id, score)
         else scan_agents items query_lower (best_match, best_score))"

text \<open>
  \<^verbatim>\<open>best_match\<close> holds \<^verbatim>\<open>None\<close> or a string: its truth value (\<^verbatim>\<open>None\<close> and the
  empty string are false) and the value it stands for in a dictionary.
\<close>

definition truthy :: "string option \<Rightarrow> bool" where
  "truthy m = (case m of None \<Rightarrow> False | Some s \<Rightarrow> s \<noteq> [])"

definition str_or_None :: "string option \<Rightarrow> json" where
  "str_or_None m = (case m of None \<Rightarrow> JNull | Some s \<Rightarrow> JStr s)"

text \<open>
  \<^verbatim>\<open>_fallback_intent\<close> writes one warning and returns a dictionary computed from the query
  and the registry alone: \<open>fallback_result\<close> is that dictionary (lines 300 to 330).
\<close>

definition fallback_result :: "string \<Rightarrow> dict" where
  "fallback_result user_query =
     (let query_lower = lower user_query;
          (best_match, best_score) = scan_agents AGENT_DESCRIPTIONS query_lower (None, 0)
      in if truthy best_match \<and> best_score > 0
         then [(''agent_id'', str_or_None best_match),
               (''confidence'',
                  JFloat (Finite (min (fl53 (7 / 10))
                                      (int_times_float (int best_score) (fl53 (2 / 10)))))),
               (''reasoning'', JStr ''Fallback keyword matching used''),
               (''is_ambiguous'', JBool False),
               (''clarifying_questions'', JArr []),
               (''extracted_params'', JObj []),
               (''alternative_agents'', JArr [])]
         else [(''agent_id'', JStr ''gemini-wrapper''),
               (''confidence'', JFloat (Finite (fl53 (3 / 10)))),
               (''reasoning'', JStr ''No specific agent matched, using general LLM''),
               (''is_ambiguous'', JBool False),
               (''clarifying_questions'', JArr []),
               (''extracted_params'', JObj []),
               (''alternative_agents'', JArr [])])"

definition fallback_intent :: "string \<Rightarrow> world \<Rightarrow> dict \<times> world" where
  "fallback_intent user_query w = (fallback_result user_query, emit Warning_fallback w)"

subsection \<open>The classification\<close>

text \<open>
  Lines 264 to 271: the text of the response is stripped, loses a leading
  \<^verbatim>\<open>```json\<close> (\<^verbatim>\<open>response_text[7:]\<close>) and a trailing \<^verbatim>\<open>```\<close>
  (\<^verbatim>\<open>response_text[:-3]\<close>), and is stripped again.
\<close>

definition clean_response :: "string \<Rightarrow> string" where
  "clean_response text =
     (let response_text = strip text;
          response_text = (if startswith response_text ''```json''
                           then drop 7 response_text else response_text);
          response_text = (if endswith response_text ''```''
                           then take (length response_text - 3) response_text else response_text)
      in strip response_text)"

text \<open>
  The two \<^verbatim>\<open>except\<close> clauses, tried in order on an exception \<open>e\<close> raised in the
  \<^verbatim>\<open>try\<close> block. \<open>response_text\<close> is the local variable of that name, \<open>None\<close> while no
  assignment to it has run: the first clause reads it for the log, which raises
  \<^verbatim>\<open>UnboundLocalError\<close> out of the handler when it is unbound. An exception that matches
  no clause goes on to the caller.
\<close>

definition handlers ::
  "string \<Rightarrow> py_exception \<Rightarrow> string option \<Rightarrow> world \<Rightarrow> (py_exception + dict) \<times> world"
where
  "handlers user_query e response_text w =
     (if e = JSONDecodeError then
        (let w1 = emit Error_parse_failed w
         in case response_text of
              None \<Rightarrow> (Inl UnboundLocalError, w1)
            | Some raw \<Rightarrow>
                (let (result, w2) = fallback_intent user_query (emit (Error_raw_response raw) w1)
                 in (Inr result, w2)))
      else if is_Exception e then
        (let (result, w1) = fallback_intent user_query (emit Error_identification w)
         in (Inr result, w1))
      else (Inl e, w))"

text \<open>
  \<^verbatim>\<open>identify_intent\<close>. \<open>loads\<close> is \<^verbatim>\<open>json.loads\<close>, with \<open>None\<close> for a
  \<^verbatim>\<open>JSONDecodeError\<close>. Only a \<^verbatim>\<open>dict\<close> has the method \<^verbatim>\<open>get\<close>: on any other
  parsed value \<^verbatim>\<open>intent_result.get("agent_id")\<close> raises \<^verbatim>\<open>AttributeError\<close>. The
  result is \<open>Inr\<close> of the dictionary returned or \<open>Inl\<close> of the exception that reaches
  the caller, together with the state after the call: the outcomes of the later calls of
  the language model and the log.
\<close>

definition identify_intent ::
  "(string \<Rightarrow> json option) \<Rightarrow> string \<Rightarrow> world \<Rightarrow> (py_exception + dict) \<times> world"
where
  "identify_intent loads user_query w =
     (let w1 = emit (Info_identifying user_query) w
      in case generate_content w1 of
           (Raises e, w2) \<Rightarrow> handlers user_query e None w2
         | (Returns text, w2) \<Rightarrow>
             (let response_text = clean_response text
              in case loads response_text of
                   None \<Rightarrow> handlers user_query JSONDecodeError (Some response_text) w2
                 | Some (JObj intent_result) \<Rightarrow>
                     (let agent_id = dict_get intent_result ''agent_id''
                      in case in_AGENT_DESCRIPTIONS agent_id of
                           Inl e \<Rightarrow> handlers user_query e (Some response_text) w2
                         | Inr found \<Rightarrow>
                             (let (intent_result, w3) =
                                    (if \<not> found
                                     then (dict_set
                                             (dict_set intent_result ''agent_id''
                                                (JStr ''gemini-wrapper''))
                                             ''confidence'' (JFloat (Finite (fl53 (5 / 10)))),
                                           emit (Warning_unknown_agent_id agent_id) w2)
                                     else (intent_result, w2));
                                  w4 = emit (Info_identified (dict_get intent_result ''agent_id'')
                                               (dict_get intent_result ''confidence'')) w3
                              in (Inr intent_result, w4)))
                 | Some other \<Rightarrow> handlers user_query AttributeError (Some response_text) w2))"

subsection \<open>The fallback in the words of the specification\<close>

text \<open>
  The specification describes the fallback without a loop: the score of an agent is the
  number of its keywords that are literal substrings of the lower-cased query; the agent
  chosen is the first one, in the order of the registry, whose score is the highest of
  all; and a highest score of 0 is no match.
\<close>

definition spec_score :: "string \<Rightarrow> agent_info \<Rightarrow> nat" where
  "spec_score query_lower info =
     length (filter (\<lambda>keyword. sublist keyword query_lower) (keywords info))"

definition spec_fallback :: "string \<Rightarrow> dict" where
  "spec_fallback query =
     (let query_lower = lower query;
          scores = map (\<lambda>(agent_id, info). spec_score query_lower info) AGENT_DESCRIPTIONS;
          best_score = Max (set (0 # scores))
      in case (if best_score = 0 then None
               else find (\<lambda>(agent_id, info). spec_score query_lower info = best_score)
                      AGENT_DESCRIPTIONS) of
           None \<Rightarrow>
             [(''agent_id'', JStr ''gemini-wrapper''),
              (''confidence'', JFloat (Finite (fl53 (3 / 10)))),
              (''reasoning'', JStr ''No specific agent matched, using general LLM''),
              (''is_ambiguous'', JBool False),
              (''clarifying_questions'', JArr []),
              (''extracted_params'', JObj []),
              (''alternative_agents'', JArr [])]
         | Some (best_match, info) \<Rightarrow>
             [(''agent_id'', JStr best_match),
              (''confidence'',
                 JFloat (Finite (min (fl53 (7 / 10))
                                     (int_times_float (int best_score) (fl53 (2 / 10)))))),
              (''reasoning'', JStr ''Fallback keyword matching used''),
              (''is_ambiguous'', JBool False),
              (''clarifying_questions'', JArr []),
              (''extracted_params'', JObj []),
              (''alternative_agents'', JArr [])])"

subsection \<open>Notions used in the statements\<close>

text \<open>
  An outcome of the call of the language model that the handlers of \<^verbatim>\<open>identify_intent\<close>
  are written for: a text, or an exception that is an instance of \<^verbatim>\<open>Exception\<close> and
  not of \<^verbatim>\<open>json.JSONDecodeError\<close>.
\<close>

fun ordinary :: "llm_outcome \<Rightarrow> bool" where
  "ordinary (Returns text) = True"
| "ordinary (Raises e) = (is_Exception e \<and> e \<noteq> JSONDecodeError)"

text \<open>The dictionary the response parses to, if the call returned a text that parses to one.\<close>

fun parsed_object :: "(string \<Rightarrow> json option) \<Rightarrow> llm_outcome \<Rightarrow> dict option" where
  "parsed_object loads (Raises e) = None"
| "parsed_object loads (Returns text) =
     (case loads (clean_response text) of Some (JObj d) \<Rightarrow> Some d | _ \<Rightarrow> None)"

text \<open>The response is a dictionary whose \<^verbatim>\<open>agent_id\<close> is a key of the registry.\<close>

definition known_agent_response :: "(string \<Rightarrow> json option) \<Rightarrow> llm_outcome \<Rightarrow> bool" where
  "known_agent_response loads outcome =
     (case parsed_object loads outcome of
        None \<Rightarrow> False
      | Some d \<Rightarrow> is_registry_key (dict_get d ''agent_id''))"

text \<open>A Classification Result whose \<^verbatim>\<open>agent_id\<close> is a key of the registry.\<close>

definition agent_id_registered :: "dict \<Rightarrow> bool" where
  "agent_id_registered result = is_registry_key (dict_get result ''agent_id'')"

text \<open>A Classification Result whose \<^verbatim>\<open>confidence\<close> is a number of the interval [0, 1].\<close>

fun unit_interval :: "json \<Rightarrow> bool" where
  "unit_interval (JInt n) = (0 \<le> n \<and> n \<le> 1)"
| "unit_interval (JFloat (Finite x)) = (0 \<le> x \<and> x \<le> 1)"
| "unit_interval v = False"

definition confidence_in_unit_interval :: "dict \<Rightarrow> bool" where
  "confidence_in_unit_interval result = unit_interval (dict_get result ''confidence'')"

text \<open>
  A JSON object text is, whitespace at both ends apart, an opening brace, the members and
  a closing brace.
\<close>

definition braced :: "string \<Rightarrow> bool" where
  "braced s \<longleftrightarrow> s \<noteq> [] \<and> hd s = CHR ''{'' \<and> last s = CHR ''}''"

subsection \<open>Example inputs\<close>

text \<open>
  For the examples, \<^verbatim>\<open>json.loads\<close> on the five texts they use, and a language model
  whose later calls all fail.
\<close>

definition example_loads :: "string \<Rightarrow> json option" where
  \<open>example_loads text =
     map_of
       [(''{"agent_id": "exam_readiness_agent", "confidence": 5}'',
           JObj [(''agent_id'', JStr ''exam_readiness_agent''), (''confidence'', JInt 5)]),
        (''{"agent_id": "made_up_agent", "confidence": 0.9, "reasoning": "r"}'',
           JObj [(''agent_id'', JStr ''made_up_agent''),
                 (''confidence'', JFloat (Finite (fl53 (9 / 10)))),
                 (''reasoning'', JStr ''r'')]),
        (''{"agent_id": [], "reasoning": "r"}'',
           JObj [(''agent_id'', JArr []), (''reasoning'', JStr ''r'')]),
        (''{"reasoning": "r"}'', JObj [(''reasoning'', JStr ''r'')]),
        (''[1, 2]'', JArr [JInt 1, JInt 2])]
       text\<close>

definition later_calls :: "llm_outcome stream" where
  "later_calls = sconst (Raises (OtherException ''ServiceUnavailable''))"

section \<open>Properties\<close>

subsection \<open>The paths through \<open>identify_intent\<close>\<close>

lemma fl53_half: "fl53 (1 / 2) = 1 / 2"
  by code_simp

lemma handlers_parse_error:
  "handlers q JSONDecodeError (Some raw) \<lparr>llm = s, log = l\<rparr> =
     (Inr (fallback_result q),
      \<lparr>llm = s, log = l @ [Error_parse_failed, Error_raw_response raw, Warning_fallback]\<rparr>)"
  by (simp add: handlers_def fallback_intent_def emit_def)

lemma handlers_other:
  "is_Exception e \<Longrightarrow> e \<noteq> JSONDecodeError \<Longrightarrow>
   handlers q e raw \<lparr>llm = s, log = l\<rparr> =
     (Inr (fallback_result q), \<lparr>llm = s, log = l @ [Error_identification, Warning_fallback]\<rparr>)"
  by (simp add: handlers_def fallback_intent_def emit_def)

lemma handlers_unbound:
  "handlers q JSONDecodeError None \<lparr>llm = s, log = l\<rparr> =
     (Inl UnboundLocalError, \<lparr>llm = s, log = l @ [Error_parse_failed]\<rparr>)"
  by (simp add: handlers_def emit_def)

lemma handlers_uncaught:
  "\<not> is_Exception e \<Longrightarrow> handlers q e raw w = (Inl e, w)"
  by (cases e) (simp_all add: handlers_def)

lemma identify_raises:
  "identify_intent loads q \<lparr>llm = Raises e ## rest, log = l\<rparr> =
     handlers q e None \<lparr>llm = rest, log = l @ [Info_identifying q]\<rparr>"
  by (simp add: identify_intent_def generate_content_def emit_def)

lemma identify_unparsable:
  "loads (clean_response text) = None \<Longrightarrow>
   identify_intent loads q \<lparr>llm = Returns text ## rest, log = l\<rparr> =
     handlers q JSONDecodeError (Some (clean_response text))
       \<lparr>llm = rest, log = l @ [Info_identifying q]\<rparr>"
  by (simp add: identify_intent_def generate_content_def emit_def)

lemma identify_not_dict:
  "loads (clean_response text) = Some v \<Longrightarrow> \<forall>d. v \<noteq> JObj d \<Longrightarrow>
   identify_intent loads q \<lparr>llm = Returns text ## rest, log = l\<rparr> =
     handlers q AttributeError (Some (clean_response text))
       \<lparr>llm = rest, log = l @ [Info_identifying q]\<rparr>"
  by (cases v) (simp_all add: identify_intent_def generate_content_def emit_def)

lemma identify_unhashable:
  "loads (clean_response text) = Some (JObj d) \<Longrightarrow> \<not> hashable (dict_get d ''agent_id'') \<Longrightarrow>
   identify_intent loads q \<lparr>llm = Returns text ## rest, log = l\<rparr> =
     handlers q TypeError (Some (clean_response text))
       \<lparr>llm = rest, log = l @ [Info_identifying q]\<rparr>"
  by (simp add: identify_intent_def generate_content_def emit_def in_AGENT_DESCRIPTIONS_def)

lemma registry_key_hashable: "is_registry_key v \<Longrightarrow> hashable v"
  by (cases v) simp_all

lemma identify_known:
  "loads (clean_response text) = Some (JObj d) \<Longrightarrow> is_registry_key (dict_get d ''agent_id'') \<Longrightarrow>
   identify_intent loads q \<lparr>llm = Returns text ## rest, log = l\<rparr> =
     (Inr d, \<lparr>llm = rest,
              log = l @ [Info_identifying q,
                         Info_identified (dict_get d ''agent_id'') (dict_get d ''confidence'')]\<rparr>)"
  by (simp add: identify_intent_def generate_content_def emit_def in_AGENT_DESCRIPTIONS_def
        registry_key_hashable)

lemma identify_unknown:
  "loads (clean_response text) = Some (JObj d) \<Longrightarrow> hashable (dict_get d ''agent_id'') \<Longrightarrow>
   \<not> is_registry_key (dict_get d ''agent_id'') \<Longrightarrow>
   identify_intent loads q \<lparr>llm = Returns text ## rest, log = l\<rparr> =
     (Inr (dict_set (dict_set d ''agent_id'' (JStr ''gemini-wrapper''))
             ''confidence'' (JFloat (Finite (1 / 2)))),
      \<lparr>llm = rest,
       log = l @ [Info_identifying q,
                  Warning_unknown_agent_id (dict_get d ''agent_id''),
                  Info_identified (JStr ''gemini-wrapper'') (JFloat (Finite (1 / 2)))]\<rparr>)"
  apply (simp add: identify_intent_def generate_content_def emit_def in_AGENT_DESCRIPTIONS_def
           fl53_half)
  apply (simp add: dict_get_def dict_set_def update_conv')
  done

subsection \<open>The loop of the fallback\<close>

lemma Max_cons_absorb:
  fixes s :: nat
  shows "c \<le> s \<Longrightarrow> Max (set (s # c # xs)) = Max (set (s # xs))"
    and "s < c \<Longrightarrow> Max (set (s # c # xs)) = Max (set (c # xs))"
  by (cases "xs = []"; simp add: max_def)+

text \<open>
  After the loop, \<^verbatim>\<open>best_score\<close> is the greatest of its initial value and the scores, and
  \<^verbatim>\<open>best_match\<close> is the first agent that reaches it, or unchanged when no score exceeds
  the initial value.
\<close>

lemma scan_agents_spec:
  "scan_agents items ql (m, s) =
     (let B = Max (set (s # map (\<lambda>(a, info). spec_score ql info) items))
      in (if B = s then m
          else map_option fst (find (\<lambda>(a, info). spec_score ql info = B) items), B))"
proof (induction items arbitrary: m s)
  case Nil
  then show ?case by simp
next
  case (Cons x items)
  obtain a info where x: "x = (a, info)" by (cases x)
  let ?c = "spec_score ql info"
  let ?R = "map (\<lambda>(a, info). spec_score ql info) items"
  show ?case
  proof (cases "s < ?c")
    case True
    have B: "Max (set (s # ?c # ?R)) = Max (set (?c # ?R))"
      using True by (rule Max_cons_absorb(2))
    have ge: "?c \<le> Max (set (?c # ?R))" by simp
    show ?thesis
      using True ge Cons.IH[of "Some a" ?c]
      by (auto simp: x Let_def B spec_score_def[symmetric] simp del: set_simps list.set)
  next
    case False
    have B: "Max (set (s # ?c # ?R)) = Max (set (s # ?R))"
      using False by (intro Max_cons_absorb(1)) simp
    have ge: "s \<le> Max (set (s # ?R))" by simp
    show ?thesis
      using False ge Cons.IH[of m s]
      by (auto simp: x Let_def B spec_score_def[symmetric] simp del: set_simps list.set)
  qed
qed

lemma find_best_score:
  fixes sc :: "'a \<Rightarrow> nat"
  assumes "Max (set (0 # map sc items)) \<noteq> 0"
  shows "\<exists>x. find (\<lambda>x. sc x = Max (set (0 # map sc items))) items = Some x \<and> x \<in> set items"
proof -
  let ?B = "Max (set (0 # map sc items))"
  have "?B \<in> set (0 # map sc items)"
    by (rule Max_in) simp_all
  with assms have "\<exists>x\<in>set items. sc x = ?B"
    by auto
  then obtain x where "find (\<lambda>x. sc x = ?B) items = Some x"
    by (cases "find (\<lambda>x. sc x = ?B) items") (auto simp: find_None_iff)
  moreover from this have "x \<in> set items"
    by (auto simp: find_Some_iff)
  ultimately show ?thesis by blast
qed

lemma registry_ids_nonempty: "(a, info) \<in> set AGENT_DESCRIPTIONS \<Longrightarrow> a \<noteq> []"
  by (auto simp: AGENT_DESCRIPTIONS_def)

subsection \<open>Cleaning the text of the response\<close>

lemma strip_space_left: "list_all isspace w \<Longrightarrow> strip (w @ s) = strip s"
  by (simp add: strip_def list_all_iff dropWhile_append2)

lemma strip_space_right:
  assumes "list_all isspace w"
  shows "strip (s @ w) = strip s"
proof (cases "list_all isspace s")
  case True
  with assms have e: "dropWhile isspace (s @ w) = []" "dropWhile isspace s = []"
    by (simp_all add: dropWhile_eq_Nil_conv list_all_iff)
  show ?thesis unfolding strip_def by (simp only: e)
next
  case False
  then obtain x where "x \<in> set s" "\<not> isspace x"
    by (auto simp: list_all_iff)
  then have "dropWhile isspace (s @ w) = dropWhile isspace s @ w"
    by (rule dropWhile_append1)
  moreover have "dropWhile isspace (rev w @ r) = dropWhile isspace r" for r
    using assms by (intro dropWhile_append2) (simp add: list_all_iff)
  ultimately show ?thesis by (simp add: strip_def)
qed

lemma strip_stripped:
  assumes "s \<noteq> []" "\<not> isspace (hd s)" "\<not> isspace (last s)"
  shows "strip s = s"
proof -
  from assms have "dropWhile isspace s = s"
    by (cases s) simp_all
  moreover from assms have "dropWhile isspace (rev s) = rev s"
    by (cases "rev s") (simp_all add: hd_rev)
  ultimately show ?thesis by (simp add: strip_def)
qed

lemma not_space_examples:
  "\<not> isspace (CHR 0x60)" "\<not> isspace (CHR ''{'')" "\<not> isspace (CHR ''}'')"
  by (simp_all add: isspace_def)

lemma clean_response_braced:
  assumes "braced (strip t)"
  shows "clean_response t = strip t"
proof -
  let ?u = "strip t"
  from assms have ne: "?u \<noteq> []" and h: "hd ?u = CHR ''{''" and l: "last ?u = CHR ''}''"
    by (simp_all add: braced_def)
  have "\<not> startswith ?u ''```json''"
    using ne h by (cases ?u) (simp_all add: startswith_def)
  moreover have "\<not> endswith ?u ''```''"
    using ne l by (auto simp: endswith_def suffix_def)
  moreover have "strip ?u = ?u"
    using ne h l by (intro strip_stripped) (simp_all add: not_space_examples)
  ultimately show ?thesis
    by (simp add: clean_response_def Let_def)
qed

lemma clean_response_fenced:
  assumes "list_all isspace w1" "list_all isspace w2" "list_all isspace w3" "list_all isspace w4"
  shows "clean_response (w1 @ ''```json'' @ w2 @ t @ w3 @ ''```'' @ w4) = strip t"
proof -
  let ?inner = "w2 @ t @ w3"
  let ?f = "''```json'' @ ?inner @ ''```''"
  have "strip (w1 @ ''```json'' @ w2 @ t @ w3 @ ''```'' @ w4) = strip (?f @ w4)"
    using assms(1) strip_space_left[of w1 "?f @ w4"] by simp
  also have "\<dots> = strip ?f"
    using assms(4) by (rule strip_space_right)
  also have "\<dots> = ?f"
    by (rule strip_stripped) (simp_all add: not_space_examples)
  finally have s1: "strip (w1 @ ''```json'' @ w2 @ t @ w3 @ ''```'' @ w4) = ?f" .
  have s2: "startswith ?f ''```json''"
    by (simp add: startswith_def)
  have s3: "drop 7 ?f = ?inner @ ''```''"
    by simp
  have s4: "endswith (?inner @ ''```'') ''```''"
    unfolding endswith_def by (rule suffixI) (rule refl)
  have s5: "take (length (?inner @ ''```'') - 3) (?inner @ ''```'') = ?inner"
    by simp
  have "strip ?inner = strip (w2 @ t)"
    using assms(3) strip_space_right[of w3 "w2 @ t"] by simp
  also have "\<dots> = strip t"
    using assms(2) by (rule strip_space_left)
  finally have s6: "strip ?inner = strip t" .
  show ?thesis
    unfolding clean_response_def Let_def s1 using s2 s3 s4 s5 s6 by simp
qed

subsection \<open>Python float arithmetic and the result of the fallback\<close>

lemma round_half_even_nonneg: "0 \<le> x \<Longrightarrow> 0 \<le> round_half_even x"
  by (auto simp: round_half_even_def Let_def)

lemma fl53_nonneg: "0 \<le> x \<Longrightarrow> 0 \<le> fl53 x"
  by (auto simp: fl53_def Let_def round_half_even_nonneg intro!: divide_nonneg_nonneg mult_nonneg_nonneg)

lemma fl53_literals:
  "fl53 (7 / 10) = 3152519739159347 / 4503599627370496"
  "fl53 (3 / 10) = 5404319552844595 / 18014398509481984"
  "fl53 (2 / 10) = 3602879701896397 / 18014398509481984"
  by code_simp+

text \<open>
  The confidence of a match for the scores 1 to 4, as Python computes it: 0.2, 0.4,
  0.6000000000000001 and 0.7.
\<close>

lemma fallback_confidence_examples:
  "min (fl53 (7 / 10)) (int_times_float 1 (fl53 (2 / 10))) = fl53 (2 / 10)"
  "min (fl53 (7 / 10)) (int_times_float 2 (fl53 (2 / 10))) = fl53 (4 / 10)"
  "min (fl53 (7 / 10)) (int_times_float 3 (fl53 (2 / 10))) =
     1351079888211149 / 2251799813685248"
  "min (fl53 (7 / 10)) (int_times_float 4 (fl53 (2 / 10))) = fl53 (7 / 10)"
  by code_simp+

lemma fallback_confidence_bounds:
  "0 \<le> min (fl53 (7 / 10)) (int_times_float (int n) (fl53 (2 / 10)))"
  "min (fl53 (7 / 10)) (int_times_float (int n) (fl53 (2 / 10))) \<le> 1"
proof -
  have "0 \<le> fl53 (of_int (int n))" by (rule fl53_nonneg) simp
  moreover have "0 \<le> fl53 (2 / 10)" by (rule fl53_nonneg) simp
  ultimately have "0 \<le> int_times_float (int n) (fl53 (2 / 10))"
    unfolding int_times_float_def by (auto intro!: fl53_nonneg mult_nonneg_nonneg)
  moreover have "0 \<le> fl53 (7 / 10)" by (rule fl53_nonneg) simp
  ultimately show "0 \<le> min (fl53 (7 / 10)) (int_times_float (int n) (fl53 (2 / 10)))"
    by simp
  have "fl53 (7 / 10) \<le> 1" by (simp add: fl53_literals)
  then show "min (fl53 (7 / 10)) (int_times_float (int n) (fl53 (2 / 10))) \<le> 1"
    by simp
qed

text \<open>The result of the fallback is one of the two dictionary literals.\<close>

lemma fallback_result_cases:
  "fallback_result q =
     [(''agent_id'', JStr ''gemini-wrapper''),
      (''confidence'', JFloat (Finite (fl53 (3 / 10)))),
      (''reasoning'', JStr ''No specific agent matched, using general LLM''),
      (''is_ambiguous'', JBool False),
      (''clarifying_questions'', JArr []),
      (''extracted_params'', JObj []),
      (''alternative_agents'', JArr [])] \<or>
   (\<exists>a n. a \<in> set (map fst AGENT_DESCRIPTIONS) \<and>
      fallback_result q =
        [(''agent_id'', JStr a),
         (''confidence'',
            JFloat (Finite (min (fl53 (7 / 10)) (int_times_float (int n) (fl53 (2 / 10)))))),
         (''reasoning'', JStr ''Fallback keyword matching used''),
         (''is_ambiguous'', JBool False),
         (''clarifying_questions'', JArr []),
         (''extracted_params'', JObj []),
         (''alternative_agents'', JArr [])])"
proof -
  let ?ql = "lower q"
  let ?sc = "\<lambda>(a :: string, info). spec_score ?ql info"
  let ?B = "Max (set (0 # map ?sc AGENT_DESCRIPTIONS))"
  have scan: "scan_agents AGENT_DESCRIPTIONS ?ql (None, 0) =
      (if ?B = 0 then None
       else map_option fst (find (\<lambda>(a, info). spec_score ?ql info = ?B) AGENT_DESCRIPTIONS), ?B)"
    by (simp add: scan_agents_spec Let_def)
  show ?thesis
  proof (cases "?B = 0")
    case True
    then show ?thesis
      by (simp add: fallback_result_def scan Let_def truthy_def del: set_simps)
  next
    case False
    from find_best_score[OF False] obtain a info where
      f: "find (\<lambda>x. ?sc x = ?B) AGENT_DESCRIPTIONS = Some (a, info)" and
      m: "(a, info) \<in> set AGENT_DESCRIPTIONS"
      by (metis surj_pair)
    from m have ne: "a \<noteq> []" by (rule registry_ids_nonempty)
    from m have key: "a \<in> set (map fst AGENT_DESCRIPTIONS)" by force
    have f': "find (\<lambda>(a, info). spec_score ?ql info = ?B) AGENT_DESCRIPTIONS = Some (a, info)"
      using f by (simp add: case_prod_unfold)
    have "fallback_result q =
        [(''agent_id'', JStr a),
         (''confidence'',
            JFloat (Finite (min (fl53 (7 / 10)) (int_times_float (int ?B) (fl53 (2 / 10)))))),
         (''reasoning'', JStr ''Fallback keyword matching used''),
         (''is_ambiguous'', JBool False),
         (''clarifying_questions'', JArr []),
         (''extracted_params'', JObj []),
         (''alternative_agents'', JArr [])]"
      using False f' ne
      by (simp add: fallback_result_def scan Let_def truthy_def str_or_None_def del: set_simps)
    with key show ?thesis by blast
  qed
qed

lemma gemini_wrapper_registered: "''gemini-wrapper'' \<in> set (map fst AGENT_DESCRIPTIONS)"
  by (simp add: AGENT_DESCRIPTIONS_def)

lemma fallback_agent_registered: "agent_id_registered (fallback_result q)"
  using fallback_result_cases[of q] gemini_wrapper_registered
  by (auto simp: agent_id_registered_def dict_get_def simp del: set_map)

lemma fallback_confidence_unit: "confidence_in_unit_interval (fallback_result q)"
proof -
  have "0 \<le> fl53 (3 / 10)" "fl53 (3 / 10) \<le> 1"
    by (simp_all add: fl53_literals)
  then show ?thesis
    using fallback_result_cases[of q] fallback_confidence_bounds
    by (auto simp: confidence_in_unit_interval_def dict_get_def)
qed

lemma corrected_lookup:
  "map_of (dict_set (dict_set d ''agent_id'' a) ''confidence'' c) =
     (map_of d)(''agent_id'' \<mapsto> a, ''confidence'' \<mapsto> c)"
  by (simp add: dict_set_def update_conv')

lemma corrected_registered:
  "agent_id_registered (dict_set (dict_set d ''agent_id'' (JStr ''gemini-wrapper'')) ''confidence'' c)"
  using gemini_wrapper_registered
  by (simp add: agent_id_registered_def dict_get_def corrected_lookup del: set_map)

lemma corrected_confidence_unit:
  "confidence_in_unit_interval
     (dict_set (dict_set d ''agent_id'' a) ''confidence'' (JFloat (Finite (1 / 2))))"
  by (simp add: confidence_in_unit_interval_def dict_get_def corrected_lookup)

text \<open>What \<open>identify_intent\<close> returns, on every path that an ordinary outcome of the call opens.\<close>

lemma identify_intent_result:
  assumes "ordinary outcome"
  shows "fst (identify_intent loads q \<lparr>llm = outcome ## rest, log = l\<rparr>) =
     Inr (case parsed_object loads outcome of
            None \<Rightarrow> fallback_result q
          | Some d \<Rightarrow>
              if \<not> hashable (dict_get d ''agent_id'') then fallback_result q
              else if is_registry_key (dict_get d ''agent_id'') then d
              else dict_set (dict_set d ''agent_id'' (JStr ''gemini-wrapper''))
                     ''confidence'' (JFloat (Finite (1 / 2))))"
proof (cases outcome)
  case (Raises e)
  with assms show ?thesis
    by (simp add: identify_raises handlers_other)
next
  case (Returns resp)
  show ?thesis
  proof (cases "loads (clean_response resp)")
    case None
    then show ?thesis
      by (simp add: Returns identify_unparsable handlers_parse_error)
  next
    case (Some v)
    show ?thesis
    proof (cases "\<exists>d. v = JObj d")
      case False
      then have nd: "\<forall>d. v \<noteq> JObj d" by simp
      then have "parsed_object loads outcome = None"
        using Some by (cases v) (simp_all add: Returns)
      then show ?thesis
        by (simp add: Returns identify_not_dict[of loads resp v, OF Some nd] handlers_other)
    next
      case True
      then obtain d where v: "v = JObj d" ..
      have L: "loads (clean_response resp) = Some (JObj d)"
        using Some v by simp
      show ?thesis
      proof (cases "hashable (dict_get d ''agent_id'')")
        case False
        then show ?thesis
          by (simp add: Returns L identify_unhashable[of loads resp d, OF L] handlers_other)
      next
        case h: True
        show ?thesis
        proof (cases "is_registry_key (dict_get d ''agent_id'')")
          case True
          then show ?thesis
            by (simp add: Returns L h identify_known[of loads resp d, OF L])
        next
          case False
          then show ?thesis
            by (simp add: Returns L h identify_unknown[of loads resp d, OF L])
        qed
      qed
    qed
  qed
qed

subsection \<open>The two examples of the specification\<close>

lemma fallback_quiz_example:
  "fallback_result ''quiz me on linear algebra'' =
     [(''agent_id'', JStr ''adaptive_quiz_master_agent''),
      (''confidence'', JFloat (Finite (fl53 (2 / 10)))),
      (''reasoning'', JStr ''Fallback keyword matching used''),
      (''is_ambiguous'', JBool False),
      (''clarifying_questions'', JArr []),
      (''extracted_params'', JObj []),
      (''alternative_agents'', JArr [])]"
  by code_simp

lemma fallback_banana_example:
  "fallback_result ''banana smoothie recipe'' =
     [(''agent_id'', JStr ''gemini-wrapper''),
      (''confidence'', JFloat (Finite (fl53 (3 / 10)))),
      (''reasoning'', JStr ''No specific agent matched, using general LLM''),
      (''is_ambiguous'', JBool False),
      (''clarifying_questions'', JArr []),
      (''extracted_params'', JObj []),
      (''alternative_agents'', JArr [])]"
  by code_simp

subsection \<open>Example responses\<close>

lemma example_parse_known:
  \<open>example_loads (clean_response ''{"agent_id": "exam_readiness_agent", "confidence": 5}'') =
     Some (JObj [(''agent_id'', JStr ''exam_readiness_agent''), (''confidence'', JInt 5)])\<close>
  by code_simp

lemma example_parse_made_up:
  \<open>example_loads
     (clean_response ''{"agent_id": "made_up_agent", "confidence": 0.9, "reasoning": "r"}'') =
     Some (JObj [(''agent_id'', JStr ''made_up_agent''),
                 (''confidence'', JFloat (Finite (fl53 (9 / 10)))),
                 (''reasoning'', JStr ''r'')])\<close>
  by code_simp

lemma example_parse_unhashable:
  \<open>example_loads (clean_response ''{"agent_id": [], "reasoning": "r"}'') =
     Some (JObj [(''agent_id'', JArr []), (''reasoning'', JStr ''r'')])\<close>
  by code_simp

lemma example_parse_missing:
  \<open>example_loads (clean_response ''{"reasoning": "r"}'') =
     Some (JObj [(''reasoning'', JStr ''r'')])\<close>
  by code_simp

lemma example_parse_list:
  \<open>example_loads (clean_response ''[1, 2]'') = Some (JArr [JInt 1, JInt 2])\<close>
  by code_simp

lemma example_parse_prose:
  \<open>example_loads (clean_response ''Sorry, I cannot classify this.'') = None\<close>
  by code_simp

lemma example_registry_keys:
  "is_registry_key (JStr ''exam_readiness_agent'')"
  "\<not> is_registry_key (JStr ''made_up_agent'')"
  by code_simp+

lemma example_made_up_agent_id:
  "hashable (dict_get [(''agent_id'', JStr ''made_up_agent''),
                       (''confidence'', JFloat (Finite (fl53 (9 / 10)))),
                       (''reasoning'', JStr ''r'')] ''agent_id'')"
  "\<not> is_registry_key (dict_get [(''agent_id'', JStr ''made_up_agent''),
                                 (''confidence'', JFloat (Finite (fl53 (9 / 10)))),
                                 (''reasoning'', JStr ''r'')] ''agent_id'')"
  by code_simp+

lemma example_made_up_result:
  \<open>fst (identify_intent example_loads q
     \<lparr>llm = Returns ''{"agent_id": "made_up_agent", "confidence": 0.9, "reasoning": "r"}'' ## rest,
      log = l\<rparr>) =
   Inr [(''agent_id'', JStr ''gemini-wrapper''),
        (''confidence'', JFloat (Finite (1 / 2))),
        (''reasoning'', JStr ''r'')]\<close>
  using identify_unknown [of example_loads
      \<open>''{"agent_id": "made_up_agent", "confidence": 0.9, "reasoning": "r"}''\<close> _ q rest l,
      OF example_parse_made_up example_made_up_agent_id]
  by (simp add: dict_set_def)

lemma example_known_agent_id:
  "is_registry_key
     (dict_get [(''agent_id'', JStr ''exam_readiness_agent''), (''confidence'', JInt 5)]
        ''agent_id'')"
  by code_simp

lemma known_registered: "is_registry_key (dict_get d ''agent_id'') \<Longrightarrow> agent_id_registered d"
  by (simp add: agent_id_registered_def)

lemma example_missing_agent_id:
  "map_of [(''reasoning'', JStr ''r'')] ''agent_id'' = None"
  by simp

lemma example_unhashable_agent_id:
  "\<not> is_registry_key (dict_get [(''agent_id'', JArr []), (''reasoning'', JStr ''r'')] ''agent_id'')"
  "\<not> hashable (dict_get [(''agent_id'', JArr []), (''reasoning'', JStr ''r'')] ''agent_id'')"
  by code_simp+

subsection \<open>The claims\<close>

text \<open>
  Claim C7. For every query, the fallback computation scores each agent of the registry
  by the number of its keywords that occur as literal substrings of the lower-cased
  query, selects the agent with the strictly highest score (the first agent in the order
  of the registry wins ties) and returns it with confidence \<^verbatim>\<open>min(0.7, score * 0.2)\<close>,
  the reasoning "Fallback keyword matching used" and empty or false remaining fields; if
  the best score is 0 it returns "gemini-wrapper" with confidence 0.3 and the reasoning
  "No specific agent matched, using general LLM". That is: the dictionary computed by the
  loop of \<^verbatim>\<open>_fallback_intent\<close> is the one \<open>spec_fallback\<close> describes.
\<close>

theorem fallback_result_meets_spec: "fallback_result q = spec_fallback q"
proof -
  let ?ql = "lower q"
  let ?sc = "\<lambda>(a :: string, info). spec_score ?ql info"
  let ?B = "Max (set (0 # map ?sc AGENT_DESCRIPTIONS))"
  have scan: "scan_agents AGENT_DESCRIPTIONS ?ql (None, 0) =
      (if ?B = 0 then None
       else map_option fst (find (\<lambda>(a, info). spec_score ?ql info = ?B) AGENT_DESCRIPTIONS), ?B)"
    by (simp add: scan_agents_spec Let_def)
  show ?thesis
  proof (cases "?B = 0")
    case True
    then show ?thesis
      by (simp add: fallback_result_def spec_fallback_def scan Let_def truthy_def del: set_simps)
  next
    case False
    from find_best_score[OF False] obtain a info where
      f: "find (\<lambda>x. ?sc x = ?B) AGENT_DESCRIPTIONS = Some (a, info)" and
      m: "(a, info) \<in> set AGENT_DESCRIPTIONS"
      by (metis surj_pair)
    from m have "a \<noteq> []" by (rule registry_ids_nonempty)
    have f': "find (\<lambda>(a, info). spec_score ?ql info = ?B) AGENT_DESCRIPTIONS = Some (a, info)"
      using f by (simp add: case_prod_unfold)
    from False f f' \<open>a \<noteq> []\<close> show ?thesis
      by (simp add: fallback_result_def spec_fallback_def scan Let_def truthy_def str_or_None_def
            del: set_simps)
  qed
qed

theorem fallback_result_meets_spec_witness:
  "spec_fallback ''quiz me on linear algebra'' =
     [(''agent_id'', JStr ''adaptive_quiz_master_agent''),
      (''confidence'', JFloat (Finite (fl53 (2 / 10)))),
      (''reasoning'', JStr ''Fallback keyword matching used''),
      (''is_ambiguous'', JBool False),
      (''clarifying_questions'', JArr []),
      (''extracted_params'', JObj []),
      (''alternative_agents'', JArr [])]"
  using fallback_result_meets_spec [of "''quiz me on linear algebra''"] fallback_quiz_example
  by simp

text \<open>
  Claim C4. If the text of the response, after the fence is removed, parses as a JSON
  object whose \<^verbatim>\<open>agent_id\<close> is a key of the registry, \<^verbatim>\<open>identify_intent\<close> returns
  exactly that parsed object: no field is added, removed or changed. The call consumes one
  outcome of the language model and writes two log records.
\<close>

theorem known_agent_passes_through:
  assumes "loads (clean_response resp) = Some (JObj d)"
    and "dict_get d ''agent_id'' = JStr a"
    and "a \<in> set (map fst AGENT_DESCRIPTIONS)"
  shows "identify_intent loads q \<lparr>llm = Returns resp ## rest, log = l\<rparr> =
     (Inr d,
      \<lparr>llm = rest,
       log = l @ [Info_identifying q, Info_identified (JStr a) (dict_get d ''confidence'')]\<rparr>)"
proof -
  from assms(2,3) have "is_registry_key (dict_get d ''agent_id'')"
    by simp
  with assms(1) show ?thesis
    using identify_known[of loads resp d q rest l] by (simp add: assms(2))
qed

theorem known_agent_passes_through_witness:
  \<open>example_loads (clean_response ''{"agent_id": "exam_readiness_agent", "confidence": 5}'') =
     Some (JObj [(''agent_id'', JStr ''exam_readiness_agent''), (''confidence'', JInt 5)]) \<and>
   dict_get [(''agent_id'', JStr ''exam_readiness_agent''), (''confidence'', JInt 5)] ''agent_id'' =
     JStr ''exam_readiness_agent'' \<and>
   ''exam_readiness_agent'' \<in> set (map fst AGENT_DESCRIPTIONS) \<and>
   identify_intent example_loads ''prepare for my exam''
     \<lparr>llm = Returns ''{"agent_id": "exam_readiness_agent", "confidence": 5}'' ## later_calls,
      log = []\<rparr> =
     (Inr [(''agent_id'', JStr ''exam_readiness_agent''), (''confidence'', JInt 5)],
      \<lparr>llm = later_calls,
       log = [Info_identifying ''prepare for my exam'',
              Info_identified (JStr ''exam_readiness_agent'') (JInt 5)]\<rparr>)\<close>
proof -
  have k: "''exam_readiness_agent'' \<in> set (map fst AGENT_DESCRIPTIONS)"
    by (simp add: AGENT_DESCRIPTIONS_def)
  have g: "dict_get [(''agent_id'', JStr ''exam_readiness_agent''), (''confidence'', JInt 5)]
             ''agent_id'' = JStr ''exam_readiness_agent''"
    by (simp add: dict_get_def)
  show ?thesis
    using known_agent_passes_through [of example_loads
        \<open>''{"agent_id": "exam_readiness_agent", "confidence": 5}''\<close> _ _
        "''prepare for my exam''" later_calls "[]", OF example_parse_known g k]
      example_parse_known g k
    by (simp add: dict_get_def)
qed

text \<open>
  Claim C6. If the text of the response, after the fence is removed, is not parsable as
  JSON, \<^verbatim>\<open>identify_intent\<close> returns exactly the fallback computation on the query:
  \<open>fallback_result q\<close> depends on the query and the registry only, not on the malformed
  text. The language model is not called again: the outcomes \<open>rest\<close> of the later calls
  are left as they were.
\<close>

theorem unparsable_response_falls_back:
  assumes "loads (clean_response resp) = None"
  shows "identify_intent loads q \<lparr>llm = Returns resp ## rest, log = l\<rparr> =
     (Inr (fallback_result q),
      \<lparr>llm = rest,
       log = l @ [Info_identifying q, Error_parse_failed,
                  Error_raw_response (clean_response resp), Warning_fallback]\<rparr>)"
  using assms by (simp add: identify_unparsable handlers_parse_error)

theorem unparsable_response_falls_back_witness:
  \<open>example_loads (clean_response ''Sorry, I cannot classify this.'') = None \<and>
   identify_intent example_loads ''quiz me on linear algebra''
     \<lparr>llm = Returns ''Sorry, I cannot classify this.'' ## later_calls, log = []\<rparr> =
     (Inr [(''agent_id'', JStr ''adaptive_quiz_master_agent''),
           (''confidence'', JFloat (Finite (fl53 (2 / 10)))),
           (''reasoning'', JStr ''Fallback keyword matching used''),
           (''is_ambiguous'', JBool False),
           (''clarifying_questions'', JArr []),
           (''extracted_params'', JObj []),
           (''alternative_agents'', JArr [])],
      \<lparr>llm = later_calls,
       log = [Info_identifying ''quiz me on linear algebra'', Error_parse_failed,
              Error_raw_response ''Sorry, I cannot classify this.'', Warning_fallback]\<rparr>)\<close>
proof -
  have c: "clean_response ''Sorry, I cannot classify this.'' = ''Sorry, I cannot classify this.''"
    by code_simp
  show ?thesis
    using unparsable_response_falls_back [of example_loads "''Sorry, I cannot classify this.''"
        "''quiz me on linear algebra''" later_calls "[]", OF example_parse_prose]
      example_parse_prose
    by (simp only: fallback_quiz_example c append_Nil simp_thms)
qed

text \<open>
  Claim C10. If the text of the response parses as JSON whose top-level value is not an
  object (an array, a string, a number, a boolean or null), \<^verbatim>\<open>identify_intent\<close> returns
  exactly the keyword fallback on the query, never the parsed value: the
  \<^verbatim>\<open>AttributeError\<close> of \<^verbatim>\<open>intent_result.get\<close> is caught by the second handler, which
  logs the error and calls \<^verbatim>\<open>_fallback_intent\<close>.
\<close>

theorem non_object_response_falls_back:
  assumes "loads (clean_response resp) = Some v"
    and "\<forall>d. v \<noteq> JObj d"
  shows "identify_intent loads q \<lparr>llm = Returns resp ## rest, log = l\<rparr> =
     (Inr (fallback_result q),
      \<lparr>llm = rest, log = l @ [Info_identifying q, Error_identification, Warning_fallback]\<rparr>)"
  using identify_not_dict[of loads resp v q rest l] assms by (simp add: handlers_other)

theorem non_object_response_falls_back_witness:
  \<open>example_loads (clean_response ''[1, 2]'') = Some (JArr [JInt 1, JInt 2]) \<and>
   identify_intent example_loads ''banana smoothie recipe''
     \<lparr>llm = Returns ''[1, 2]'' ## later_calls, log = []\<rparr> =
     (Inr [(''agent_id'', JStr ''gemini-wrapper''),
           (''confidence'', JFloat (Finite (fl53 (3 / 10)))),
           (''reasoning'', JStr ''No specific agent matched, using general LLM''),
           (''is_ambiguous'', JBool False),
           (''clarifying_questions'', JArr []),
           (''extracted_params'', JObj []),
           (''alternative_agents'', JArr [])],
      \<lparr>llm = later_calls,
       log = [Info_identifying ''banana smoothie recipe'', Error_identification,
              Warning_fallback]\<rparr>)\<close>
proof -
  have n: "\<forall>d. JArr [JInt 1, JInt 2] \<noteq> JObj d"
    by simp
  show ?thesis
    using non_object_response_falls_back [of example_loads "''[1, 2]''" _
        "''banana smoothie recipe''" later_calls "[]", OF example_parse_list n]
      example_parse_list
    by (simp only: fallback_banana_example append_Nil simp_thms)
qed

text \<open>
  Claim C1, amended. For every query and every outcome of the call of the language model
  that is a text (well-formed or not) or a raised exception which is an instance of
  \<^verbatim>\<open>Exception\<close> and not of \<^verbatim>\<open>json.JSONDecodeError\<close>, \<^verbatim>\<open>identify_intent\<close> does not
  raise: it returns a Classification Result dictionary. Whenever the primary path fails
  (the call raised, the text does not parse to a JSON object, or the \<^verbatim>\<open>agent_id\<close> of
  the object cannot be hashed) the dictionary is the fallback computation on the query.
\<close>

theorem identify_intent_returns_result:
  assumes "ordinary outcome"
  shows "\<exists>result. fst (identify_intent loads q \<lparr>llm = outcome ## rest, log = l\<rparr>) = Inr result \<and>
           ((\<forall>d. parsed_object loads outcome = Some d \<longrightarrow> \<not> hashable (dict_get d ''agent_id''))
              \<longrightarrow> result = fallback_result q)"
  using identify_intent_result [OF assms, of loads q rest l]
  by (cases "parsed_object loads outcome") auto

theorem identify_intent_returns_result_witness:
  "ordinary (Raises (OtherException ''ServiceUnavailable'')) \<and>
   fst (identify_intent example_loads ''banana smoothie recipe''
          \<lparr>llm = Raises (OtherException ''ServiceUnavailable'') ## later_calls, log = []\<rparr>) =
     Inr [(''agent_id'', JStr ''gemini-wrapper''),
          (''confidence'', JFloat (Finite (fl53 (3 / 10)))),
          (''reasoning'', JStr ''No specific agent matched, using general LLM''),
          (''is_ambiguous'', JBool False),
          (''clarifying_questions'', JArr []),
          (''extracted_params'', JObj []),
          (''alternative_agents'', JArr [])]"
proof -
  have o: "ordinary (Raises (OtherException ''ServiceUnavailable''))"
    by simp
  from identify_intent_returns_result [OF o, of example_loads "''banana smoothie recipe''"
      later_calls "[]"]
  have "fst (identify_intent example_loads ''banana smoothie recipe''
          \<lparr>llm = Raises (OtherException ''ServiceUnavailable'') ## later_calls, log = []\<rparr>) =
        Inr (fallback_result ''banana smoothie recipe'')"
    by auto
  with o show ?thesis
    by (simp only: fallback_banana_example simp_thms)
qed

text \<open>
  Claim C1 as stated, for every behaviour of the call, does not hold: the clause
  \<^verbatim>\<open>except Exception\<close> leaves an exception that derives from \<^verbatim>\<open>BaseException\<close> only to
  the caller. When the call is interrupted with \<^verbatim>\<open>KeyboardInterrupt\<close>,
  \<^verbatim>\<open>identify_intent\<close> raises it.
\<close>

theorem identify_intent_raises_counterexample:
  "fst (identify_intent example_loads ''banana smoothie recipe''
          \<lparr>llm = Raises (NonException ''KeyboardInterrupt'') ## later_calls, log = []\<rparr>) =
     Inl (NonException ''KeyboardInterrupt'')"
  by (simp add: identify_raises handlers_uncaught)

text \<open>
  Claim C2. For every query and every response of the language model (and also when the
  call raises an ordinary exception), \<^verbatim>\<open>identify_intent\<close> returns a result, and the
  \<^verbatim>\<open>agent_id\<close> of the result is a key of \<^verbatim>\<open>AGENT_DESCRIPTIONS\<close>: a known id is kept,
  an unknown id is replaced by "gemini-wrapper", and both branches of the fallback return
  keys of the registry.
\<close>

theorem identify_intent_agent_registered:
  assumes "ordinary outcome"
  shows "\<exists>result. fst (identify_intent loads q \<lparr>llm = outcome ## rest, log = l\<rparr>) = Inr result \<and>
           agent_id_registered result"
  using identify_intent_result [OF assms, of loads q rest l]
  by (cases "parsed_object loads outcome")
     (auto simp: fallback_agent_registered corrected_registered known_registered)

theorem identify_intent_agent_registered_witness:
  \<open>ordinary (Returns ''{"agent_id": "made_up_agent", "confidence": 0.9, "reasoning": "r"}'') \<and>
   fst (identify_intent example_loads ''banana smoothie recipe''
          \<lparr>llm = Returns ''{"agent_id": "made_up_agent", "confidence": 0.9, "reasoning": "r"}''
                   ## later_calls,
           log = []\<rparr>) =
     Inr [(''agent_id'', JStr ''gemini-wrapper''),
          (''confidence'', JFloat (Finite (1 / 2))),
          (''reasoning'', JStr ''r'')] \<and>
   agent_id_registered
     [(''agent_id'', JStr ''gemini-wrapper''),
      (''confidence'', JFloat (Finite (1 / 2))),
      (''reasoning'', JStr ''r'')]\<close>
proof -
  have o: \<open>ordinary (Returns ''{"agent_id": "made_up_agent", "confidence": 0.9, "reasoning": "r"}'')\<close>
    by simp
  from identify_intent_agent_registered [OF o, of example_loads "''banana smoothie recipe''"
      later_calls "[]"]
  show ?thesis
    by (auto simp: example_made_up_result)
qed

text \<open>
  Claim C3, amended. For every query and every response of the language model (and also
  when the call raises an ordinary exception), \<^verbatim>\<open>identify_intent\<close> returns a result
  whose \<^verbatim>\<open>confidence\<close> is a number of the interval [0, 1], except when the response
  parses to a JSON object with a known \<^verbatim>\<open>agent_id\<close>: then the result is that object
  as it was parsed, and its \<^verbatim>\<open>confidence\<close> is whatever the language model wrote.
\<close>

theorem identify_intent_confidence:
  assumes "ordinary outcome"
  shows "\<exists>result. fst (identify_intent loads q \<lparr>llm = outcome ## rest, log = l\<rparr>) = Inr result \<and>
           (if known_agent_response loads outcome
            then parsed_object loads outcome = Some result
            else confidence_in_unit_interval result)"
  using identify_intent_result [OF assms, of loads q rest l]
  by (cases "parsed_object loads outcome")
     (auto simp: known_agent_response_def fallback_confidence_unit corrected_confidence_unit
        registry_key_hashable)

theorem identify_intent_confidence_witness:
  \<open>ordinary (Returns ''{"agent_id": "made_up_agent", "confidence": 0.9, "reasoning": "r"}'') \<and>
   \<not> known_agent_response example_loads
       (Returns ''{"agent_id": "made_up_agent", "confidence": 0.9, "reasoning": "r"}'') \<and>
   fst (identify_intent example_loads ''banana smoothie recipe''
          \<lparr>llm = Returns ''{"agent_id": "made_up_agent", "confidence": 0.9, "reasoning": "r"}''
                   ## later_calls,
           log = []\<rparr>) =
     Inr [(''agent_id'', JStr ''gemini-wrapper''),
          (''confidence'', JFloat (Finite (1 / 2))),
          (''reasoning'', JStr ''r'')] \<and>
   confidence_in_unit_interval
     [(''agent_id'', JStr ''gemini-wrapper''),
      (''confidence'', JFloat (Finite (1 / 2))),
      (''reasoning'', JStr ''r'')]\<close>
proof -
  have o: \<open>ordinary (Returns ''{"agent_id": "made_up_agent", "confidence": 0.9, "reasoning": "r"}'')\<close>
    by simp
  have k: \<open>\<not> known_agent_response example_loads
       (Returns ''{"agent_id": "made_up_agent", "confidence": 0.9, "reasoning": "r"}'')\<close>
    by code_simp
  from identify_intent_confidence [OF o, of example_loads "''banana smoothie recipe''"
      later_calls "[]"] k
  show ?thesis
    by (auto simp: example_made_up_result)
qed

text \<open>
  Claim C3 as stated does not hold where the confidence of the response is passed
  through: nothing validates it. A response with a known \<^verbatim>\<open>agent_id\<close> and the confidence
  5 is returned as it is.
\<close>

theorem confidence_out_of_range_counterexample:
  \<open>fst (identify_intent example_loads ''prepare for my exam''
          \<lparr>llm = Returns ''{"agent_id": "exam_readiness_agent", "confidence": 5}'' ## later_calls,
           log = []\<rparr>) =
     Inr [(''agent_id'', JStr ''exam_readiness_agent''), (''confidence'', JInt 5)] \<and>
   \<not> confidence_in_unit_interval
       [(''agent_id'', JStr ''exam_readiness_agent''), (''confidence'', JInt 5)]\<close>
  using identify_known [of example_loads
      \<open>''{"agent_id": "exam_readiness_agent", "confidence": 5}''\<close> _
      "''prepare for my exam''" later_calls "[]", OF example_parse_known example_known_agent_id]
  by (simp add: dict_get_def confidence_in_unit_interval_def)

text \<open>
  Claim C5, amended. If the response parses as a JSON object whose \<^verbatim>\<open>agent_id\<close> is
  not a key of the registry and is a hashable value (a string, a number, a boolean, null,
  or absent), \<^verbatim>\<open>identify_intent\<close> returns that object with \<^verbatim>\<open>agent_id\<close> set to
  "gemini-wrapper" and \<^verbatim>\<open>confidence\<close> set to exactly 0.5, every other field unchanged.
  If the \<^verbatim>\<open>agent_id\<close> is a JSON array or object, the membership test raises
  \<^verbatim>\<open>TypeError\<close>, the second handler catches it, and the result is the keyword fallback
  on the query.
\<close>

theorem unknown_agent_corrected:
  assumes "loads (clean_response resp) = Some (JObj d)"
    and "\<not> is_registry_key (dict_get d ''agent_id'')"
  shows "fst (identify_intent loads q \<lparr>llm = Returns resp ## rest, log = l\<rparr>) =
           Inr (if hashable (dict_get d ''agent_id'')
                then dict_set (dict_set d ''agent_id'' (JStr ''gemini-wrapper''))
                       ''confidence'' (JFloat (Finite (fl53 (5 / 10))))
                else fallback_result q) \<and>
         map_of (dict_set (dict_set d ''agent_id'' (JStr ''gemini-wrapper''))
                   ''confidence'' (JFloat (Finite (fl53 (5 / 10))))) =
           (map_of d)(''agent_id'' \<mapsto> JStr ''gemini-wrapper'',
                      ''confidence'' \<mapsto> JFloat (Finite (1 / 2)))"
proof (cases "hashable (dict_get d ''agent_id'')")
  case True
  with assms show ?thesis
    using identify_unknown [of loads resp d q rest l]
    by (simp add: corrected_lookup fl53_half)
next
  case False
  with assms show ?thesis
    using identify_unhashable [of loads resp d q rest l]
    by (simp add: handlers_other corrected_lookup fl53_half)
qed

theorem unknown_agent_corrected_witness:
  \<open>example_loads
     (clean_response ''{"agent_id": "made_up_agent", "confidence": 0.9, "reasoning": "r"}'') =
     Some (JObj [(''agent_id'', JStr ''made_up_agent''),
                 (''confidence'', JFloat (Finite (fl53 (9 / 10)))),
                 (''reasoning'', JStr ''r'')]) \<and>
   \<not> is_registry_key (dict_get [(''agent_id'', JStr ''made_up_agent''),
                                 (''confidence'', JFloat (Finite (fl53 (9 / 10)))),
                                 (''reasoning'', JStr ''r'')] ''agent_id'') \<and>
   fst (identify_intent example_loads ''banana smoothie recipe''
          \<lparr>llm = Returns ''{"agent_id": "made_up_agent", "confidence": 0.9, "reasoning": "r"}''
                   ## later_calls,
           log = []\<rparr>) =
     Inr [(''agent_id'', JStr ''gemini-wrapper''),
          (''confidence'', JFloat (Finite (1 / 2))),
          (''reasoning'', JStr ''r'')]\<close>
proof -
  from unknown_agent_corrected [of example_loads
      \<open>''{"agent_id": "made_up_agent", "confidence": 0.9, "reasoning": "r"}''\<close> _
      "''banana smoothie recipe''" later_calls "[]",
      OF example_parse_made_up example_made_up_agent_id(2)]
  have \<open>fst (identify_intent example_loads ''banana smoothie recipe''
          \<lparr>llm = Returns ''{"agent_id": "made_up_agent", "confidence": 0.9, "reasoning": "r"}''
                   ## later_calls,
           log = []\<rparr>) =
     Inr [(''agent_id'', JStr ''gemini-wrapper''),
          (''confidence'', JFloat (Finite (1 / 2))),
          (''reasoning'', JStr ''r'')]\<close>
    by (simp add: example_made_up_agent_id(1) dict_set_def fl53_half)
  then show ?thesis
    using example_parse_made_up example_made_up_agent_id(2) by simp
qed

text \<open>
  Claim C5 as stated does not hold for an \<^verbatim>\<open>agent_id\<close> that is a JSON array: the empty
  list is not a key of the registry, yet the result is the dictionary of the fallback
  (confidence 0.3, the reasoning of the response lost), not the corrected response.
\<close>

theorem unhashable_agent_id_counterexample:
  \<open>example_loads (clean_response ''{"agent_id": [], "reasoning": "r"}'') =
     Some (JObj [(''agent_id'', JArr []), (''reasoning'', JStr ''r'')]) \<and>
   \<not> is_registry_key (dict_get [(''agent_id'', JArr []), (''reasoning'', JStr ''r'')] ''agent_id'') \<and>
   fst (identify_intent example_loads ''banana smoothie recipe''
          \<lparr>llm = Returns ''{"agent_id": [], "reasoning": "r"}'' ## later_calls, log = []\<rparr>) =
     Inr [(''agent_id'', JStr ''gemini-wrapper''),
          (''confidence'', JFloat (Finite (fl53 (3 / 10)))),
          (''reasoning'', JStr ''No specific agent matched, using general LLM''),
          (''is_ambiguous'', JBool False),
          (''clarifying_questions'', JArr []),
          (''extracted_params'', JObj []),
          (''alternative_agents'', JArr [])] \<and>
   fst (identify_intent example_loads ''banana smoothie recipe''
          \<lparr>llm = Returns ''{"agent_id": [], "reasoning": "r"}'' ## later_calls, log = []\<rparr>) \<noteq>
     Inr (dict_set (dict_set [(''agent_id'', JArr []), (''reasoning'', JStr ''r'')]
                      ''agent_id'' (JStr ''gemini-wrapper''))
            ''confidence'' (JFloat (Finite (fl53 (5 / 10)))))\<close>
proof -
  have r: \<open>fst (identify_intent example_loads ''banana smoothie recipe''
          \<lparr>llm = Returns ''{"agent_id": [], "reasoning": "r"}'' ## later_calls, log = []\<rparr>) =
      Inr (fallback_result ''banana smoothie recipe'')\<close>
    using identify_unhashable [of example_loads \<open>''{"agent_id": [], "reasoning": "r"}''\<close> _
        "''banana smoothie recipe''" later_calls "[]",
        OF example_parse_unhashable example_unhashable_agent_id(2)]
    by (simp add: handlers_other)
  have n: "fallback_result ''banana smoothie recipe'' \<noteq>
      dict_set (dict_set [(''agent_id'', JArr []), (''reasoning'', JStr ''r'')]
                  ''agent_id'' (JStr ''gemini-wrapper''))
        ''confidence'' (JFloat (Finite (fl53 (5 / 10))))"
    by (simp add: fallback_banana_example dict_set_def)
  show ?thesis
    using example_parse_unhashable example_unhashable_agent_id(1) r n
    by (simp only: fallback_banana_example sum.inject simp_thms)
qed

text \<open>
  Claim C9. If the response parses as a JSON object that has no key \<^verbatim>\<open>agent_id\<close>, or
  maps it to null, \<^verbatim>\<open>identify_intent\<close> treats it like an unknown agent id: it returns
  the object with \<^verbatim>\<open>agent_id\<close> "gemini-wrapper" and \<^verbatim>\<open>confidence\<close> 0.5, all other
  fields preserved, and does not invoke the keyword fallback: the records the call adds
  to the log are the three of the primary path, and the warning that
  \<^verbatim>\<open>_fallback_intent\<close> writes is not among them.
\<close>

theorem missing_agent_id_corrected:
  assumes "loads (clean_response resp) = Some (JObj d)"
    and "map_of d ''agent_id'' = None \<or> map_of d ''agent_id'' = Some JNull"
  shows "identify_intent loads q \<lparr>llm = Returns resp ## rest, log = l\<rparr> =
           (Inr (dict_set (dict_set d ''agent_id'' (JStr ''gemini-wrapper''))
                   ''confidence'' (JFloat (Finite (fl53 (5 / 10))))),
            \<lparr>llm = rest,
             log = l @ [Info_identifying q,
                        Warning_unknown_agent_id JNull,
                        Info_identified (JStr ''gemini-wrapper'')
                          (JFloat (Finite (fl53 (5 / 10))))]\<rparr>) \<and>
         map_of (dict_set (dict_set d ''agent_id'' (JStr ''gemini-wrapper''))
                   ''confidence'' (JFloat (Finite (fl53 (5 / 10))))) =
           (map_of d)(''agent_id'' \<mapsto> JStr ''gemini-wrapper'',
                      ''confidence'' \<mapsto> JFloat (Finite (1 / 2))) \<and>
         Warning_fallback \<notin>
           set (drop (length l)
                  (log (snd (identify_intent loads q \<lparr>llm = Returns resp ## rest, log = l\<rparr>))))"
proof -
  from assms(2) have n: "dict_get d ''agent_id'' = JNull"
    by (auto simp: dict_get_def)
  then have "hashable (dict_get d ''agent_id'')" "\<not> is_registry_key (dict_get d ''agent_id'')"
    by simp_all
  with assms(1) have "identify_intent loads q \<lparr>llm = Returns resp ## rest, log = l\<rparr> =
     (Inr (dict_set (dict_set d ''agent_id'' (JStr ''gemini-wrapper''))
             ''confidence'' (JFloat (Finite (1 / 2)))),
      \<lparr>llm = rest,
       log = l @ [Info_identifying q,
                  Warning_unknown_agent_id (dict_get d ''agent_id''),
                  Info_identified (JStr ''gemini-wrapper'') (JFloat (Finite (1 / 2)))]\<rparr>)"
    by (rule identify_unknown [of loads resp d q rest l])
  then show ?thesis
    by (simp add: n corrected_lookup fl53_half)
qed

theorem missing_agent_id_corrected_witness:
  \<open>example_loads (clean_response ''{"reasoning": "r"}'') =
     Some (JObj [(''reasoning'', JStr ''r'')]) \<and>
   map_of [(''reasoning'', JStr ''r'')] ''agent_id'' = None \<and>
   identify_intent example_loads ''banana smoothie recipe''
     \<lparr>llm = Returns ''{"reasoning": "r"}'' ## later_calls, log = []\<rparr> =
     (Inr [(''reasoning'', JStr ''r''),
           (''agent_id'', JStr ''gemini-wrapper''),
           (''confidence'', JFloat (Finite (1 / 2)))],
      \<lparr>llm = later_calls,
       log = [Info_identifying ''banana smoothie recipe'',
              Warning_unknown_agent_id JNull,
              Info_identified (JStr ''gemini-wrapper'') (JFloat (Finite (1 / 2)))]\<rparr>)\<close>
proof -
  have m: "map_of [(''reasoning'', JStr ''r'')] ''agent_id'' = None \<or>
           map_of [(''reasoning'', JStr ''r'')] ''agent_id'' = Some JNull"
    by simp
  from missing_agent_id_corrected [of example_loads \<open>''{"reasoning": "r"}''\<close> _
      "''banana smoothie recipe''" later_calls "[]", OF example_parse_missing m]
  have \<open>identify_intent example_loads ''banana smoothie recipe''
     \<lparr>llm = Returns ''{"reasoning": "r"}'' ## later_calls, log = []\<rparr> =
     (Inr [(''reasoning'', JStr ''r''),
           (''agent_id'', JStr ''gemini-wrapper''),
           (''confidence'', JFloat (Finite (1 / 2)))],
      \<lparr>llm = later_calls,
       log = [Info_identifying ''banana smoothie recipe'',
              Warning_unknown_agent_id JNull,
              Info_identified (JStr ''gemini-wrapper'') (JFloat (Finite (1 / 2)))]\<rparr>)\<close>
    by (simp add: dict_set_def fl53_half)
  then show ?thesis
    using example_parse_missing by simp
qed

text \<open>
  Claim C8. For every JSON object text \<open>t\<close> (a text that, stripped, starts with an
  opening and ends with a closing brace), the handling of the response applied to \<open>t\<close>
  wrapped in a markdown fence (a leading \<^verbatim>\<open>```json\<close> and a trailing \<^verbatim>\<open>```\<close>, with any
  whitespace \<open>w1\<close>, \<open>w2\<close>, \<open>w3\<close>, \<open>w4\<close> around them) cleans it to the same text, so it
  parses to the same value as the unwrapped \<open>t\<close>, and \<^verbatim>\<open>identify_intent\<close> yields the
  same result and the same state for both.
\<close>

theorem fenced_response_same:
  assumes "list_all isspace w1" and "list_all isspace w2"
    and "list_all isspace w3" and "list_all isspace w4"
    and "braced (strip t)"
  shows "clean_response (w1 @ ''```json'' @ w2 @ t @ w3 @ ''```'' @ w4) = clean_response t \<and>
         loads (clean_response (w1 @ ''```json'' @ w2 @ t @ w3 @ ''```'' @ w4)) =
           loads (clean_response t) \<and>
         identify_intent loads q
           \<lparr>llm = Returns (w1 @ ''```json'' @ w2 @ t @ w3 @ ''```'' @ w4) ## rest, log = l\<rparr> =
           identify_intent loads q \<lparr>llm = Returns t ## rest, log = l\<rparr>"
proof -
  have c: "clean_response (w1 @ ''```json'' @ w2 @ t @ w3 @ ''```'' @ w4) = clean_response t"
    using clean_response_fenced [OF assms(1-4), of t] clean_response_braced [OF assms(5)]
    by simp
  have "identify_intent loads q \<lparr>llm = Returns a ## rest, log = l\<rparr> =
        identify_intent loads q \<lparr>llm = Returns b ## rest, log = l\<rparr>"
    if "clean_response a = clean_response b" for a b
    using that by (simp add: identify_intent_def generate_content_def emit_def Let_def
          split: option.split json.split sum.split)
  from this [OF c] c show ?thesis
    by simp
qed

theorem fenced_response_same_witness:
  \<open>list_all isspace [] \<and> list_all isspace '' '' \<and>
   braced (strip ''{"reasoning": "r"}'') \<and>
   clean_response ''```json {"reasoning": "r"} ```'' = clean_response ''{"reasoning": "r"}'' \<and>
   example_loads (clean_response ''```json {"reasoning": "r"} ```'') =
     Some (JObj [(''reasoning'', JStr ''r'')]) \<and>
   identify_intent example_loads ''banana smoothie recipe''
     \<lparr>llm = Returns ''```json {"reasoning": "r"} ```'' ## later_calls, log = []\<rparr> =
   identify_intent example_loads ''banana smoothie recipe''
     \<lparr>llm = Returns ''{"reasoning": "r"}'' ## later_calls, log = []\<rparr>\<close>
proof -
  have s: "list_all isspace []" "list_all isspace '' ''"
    by (simp_all add: isspace_def)
  have b: \<open>braced (strip ''{"reasoning": "r"}'')\<close>
    by code_simp
  from fenced_response_same [OF s(1) s(2) s(2) s(1) b, of example_loads
      "''banana smoothie recipe''" later_calls "[]"] s b example_parse_missing
  show ?thesis
    by simp
qed

end
